theory Spec2Isabelle
  imports Main
begin

section \<open>The spreadsheet-backed record store (services/googleSheets.ts)\<close>

subsection \<open>Cells, rows and the JavaScript operators the store applies to them\<close>

text \<open>
  The values of a sheet are an array of rows, each an array of strings. Reading a row past
  its end gives \<^verbatim>\<open>undefined\<close>, which is \<open>None\<close> here.
\<close>

type_synonym row = "string list"
type_synonym grid = "row list"

definition cell :: "row \<Rightarrow> nat \<Rightarrow> string option" where
  "cell r i = (if i < length r then Some (r ! i) else None)"

text \<open>\<^verbatim>\<open>x || d\<close> on a string or \<^verbatim>\<open>undefined\<close>: the empty string and \<^verbatim>\<open>undefined\<close> are falsy.\<close>

definition orElse :: "string option \<Rightarrow> string \<Rightarrow> string" where
  "orElse x d = (case x of None \<Rightarrow> d | Some s \<Rightarrow> (if s = [] then d else s))"

text \<open>\<^verbatim>\<open>xs.findIndex(p)\<close>: the first position where \<open>p\<close> holds; \<open>None\<close> stands for \<^verbatim>\<open>-1\<close>.\<close>

fun findIndex :: "('a \<Rightarrow> bool) \<Rightarrow> 'a list \<Rightarrow> nat option" where
  "findIndex p [] = None"
| "findIndex p (x # xs) = (if p x then Some 0 else map_option Suc (findIndex p xs))"

subsection \<open>Entities (types/index.ts)\<close>

text \<open>
  Fields declared with \<^verbatim>\<open>?\<close> may be absent and are options. The status is
  typed as one of the literals \<open>pending\<close>, \<open>confirmed\<close>, \<open>cancelled\<close>, \<open>completed\<close>,
  but the store reads it from the sheet with an unchecked cast, so at run time it is a
  string.
  The fields \<^verbatim>\<open>id\<close>, \<^verbatim>\<open>createdAt\<close>, \<^verbatim>\<open>updatedAt\<close> and \<^verbatim>\<open>userId\<close>
  occur in both interfaces and carry a suffix here (\<open>A\<close> for the appointment, \<open>P\<close>
  for the patient), and so does \<^verbatim>\<open>notes\<close>.
\<close>

record appointment =
  idA :: string
  patientName :: string
  patientPhone :: string
  patientEmail :: "string option"
  appointmentDate :: string
  appointmentTime :: string
  serviceType :: string
  status :: string
  notesA :: "string option"
  whatsappMessageId :: "string option"
  smsMessageId :: "string option"
  createdAtA :: string
  updatedAtA :: string
  userIdA :: string

record patient =
  idP :: string
  name :: string
  phone :: string
  email :: "string option"
  dateOfBirth :: "string option"
  address :: "string option"
  emergencyContact :: "string option"
  medicalNotes :: "string option"
  createdAtP :: string
  updatedAtP :: string
  userIdP :: string

text \<open>
  \<^verbatim>\<open>Partial<Appointment>\<close> and \<^verbatim>\<open>Partial<Patient>\<close>: every key may be missing
  (\<open>None\<close>); a key that is present carries a string. Keys present with the value
  \<^verbatim>\<open>undefined\<close> are outside this model.
\<close>

record appointmentUpdates =
  u_idA :: "string option"
  u_patientName :: "string option"
  u_patientPhone :: "string option"
  u_patientEmail :: "string option"
  u_appointmentDate :: "string option"
  u_appointmentTime :: "string option"
  u_serviceType :: "string option"
  u_status :: "string option"
  u_notesA :: "string option"
  u_whatsappMessageId :: "string option"
  u_smsMessageId :: "string option"
  u_createdAtA :: "string option"
  u_updatedAtA :: "string option"
  u_userIdA :: "string option"

record patientUpdates =
  u_idP :: "string option"
  u_name :: "string option"
  u_phone :: "string option"
  u_email :: "string option"
  u_dateOfBirth :: "string option"
  u_address :: "string option"
  u_emergencyContact :: "string option"
  u_medicalNotes :: "string option"
  u_createdAtP :: "string option"
  u_updatedAtP :: "string option"
  u_userIdP :: "string option"

subsection \<open>Row mapping\<close>

text \<open>The array literal \<^verbatim>\<open>row\<close> of createAppointment and updateAppointment (14 columns, A to N).\<close>

definition appointmentRow :: "appointment \<Rightarrow> row" where
  "appointmentRow a =
     [idA a, patientName a, patientPhone a, orElse (patientEmail a) '''',
      appointmentDate a, appointmentTime a, serviceType a, status a,
      orElse (notesA a) '''', orElse (whatsappMessageId a) '''', orElse (smsMessageId a) '''',
      createdAtA a, updatedAtA a, userIdA a]"

text \<open>The array literal \<^verbatim>\<open>row\<close> of createPatient and updatePatient (11 columns, A to K).\<close>

definition patientRow :: "patient \<Rightarrow> row" where
  "patientRow p =
     [idP p, name p, phone p, orElse (email p) '''', orElse (dateOfBirth p) '''',
      orElse (address p) '''', orElse (emergencyContact p) '''', orElse (medicalNotes p) '''',
      createdAtP p, updatedAtP p, userIdP p]"

text \<open>The object pushed by the loop of getAppointments for a row that passed the owner test.\<close>

definition appointmentOfRow :: "row \<Rightarrow> appointment" where
  "appointmentOfRow r =
     \<lparr>idA = orElse (cell r 0) '''',
      patientName = orElse (cell r 1) '''',
      patientPhone = orElse (cell r 2) '''',
      patientEmail = Some (orElse (cell r 3) ''''),
      appointmentDate = orElse (cell r 4) '''',
      appointmentTime = orElse (cell r 5) '''',
      serviceType = orElse (cell r 6) '''',
      status = orElse (cell r 7) ''pending'',
      notesA = Some (orElse (cell r 8) ''''),
      whatsappMessageId = Some (orElse (cell r 9) ''''),
      smsMessageId = Some (orElse (cell r 10) ''''),
      createdAtA = orElse (cell r 11) '''',
      updatedAtA = orElse (cell r 12) '''',
      userIdA = orElse (cell r 13) ''''\<rparr>"

text \<open>The object pushed by the loop of getPatients.\<close>

definition patientOfRow :: "row \<Rightarrow> patient" where
  "patientOfRow r =
     \<lparr>idP = orElse (cell r 0) '''',
      name = orElse (cell r 1) '''',
      phone = orElse (cell r 2) '''',
      email = Some (orElse (cell r 3) ''''),
      dateOfBirth = Some (orElse (cell r 4) ''''),
      address = Some (orElse (cell r 5) ''''),
      emergencyContact = Some (orElse (cell r 6) ''''),
      medicalNotes = Some (orElse (cell r 7) ''''),
      createdAtP = orElse (cell r 8) '''',
      updatedAtP = orElse (cell r 9) '''',
      userIdP = orElse (cell r 10) ''''\<rparr>"

text \<open>
  The loops \<^verbatim>\<open>for (let i = 1; i < rows.length; i++)\<close>, run on the rows after the
  header: a row is kept when \<^verbatim>\<open>row[13] === userId\<close> (\<^verbatim>\<open>row[10]\<close> for patients).
\<close>

fun scanAppointments :: "string \<Rightarrow> row list \<Rightarrow> appointment list" where
  "scanAppointments userId [] = []"
| "scanAppointments userId (r # rs) =
     (if cell r 13 = Some userId then appointmentOfRow r # scanAppointments userId rs
      else scanAppointments userId rs)"

fun scanPatients :: "string \<Rightarrow> row list \<Rightarrow> patient list" where
  "scanPatients userId [] = []"
| "scanPatients userId (r # rs) =
     (if cell r 10 = Some userId then patientOfRow r # scanPatients userId rs
      else scanPatients userId rs)"

subsection \<open>The service object and its requests\<close>

text \<open>
  \<^verbatim>\<open>GoogleSheetsConfig\<close> and the constructor, which fills in the default sheet names.
  The identifier is an option: a configuration restored from storage may lack it.
\<close>

record googleSheetsConfig =
  spreadsheetId :: "string option"
  appointmentsSheetName :: "string option"
  patientsSheetName :: "string option"

record service =
  sheetId :: "string option"
  appointmentsSheet :: string
  patientsSheet :: string

definition GoogleSheetsService :: "googleSheetsConfig \<Rightarrow> service" where
  "GoogleSheetsService config =
     \<lparr>sheetId = spreadsheetId config,
      appointmentsSheet =
        (case appointmentsSheetName config of None \<Rightarrow> ''Appointments'' | Some n \<Rightarrow> n),
      patientsSheet =
        (case patientsSheetName config of None \<Rightarrow> ''Patients'' | Some n \<Rightarrow> n)\<rparr>"

datatype httpMethod = GET | PUT | POST

text \<open>
  The endpoint strings the store builds, kept structured:
  \<^item> \<open>Metadata\<close> is the empty endpoint;
  \<^item> \<open>Values s\<close> is \<^verbatim>\<open>/values/s\<close>;
  \<^item> \<open>RowRange s c n\<close> is \<^verbatim>\<open>/values/s!An:cn\<close>;
  \<^item> \<open>AppendTo s\<close> is \<^verbatim>\<open>/values/s:append\<close>;
  \<^item> \<open>ClearRow s c n\<close> is \<^verbatim>\<open>/values/s!An:cn:clear\<close>.
\<close>

datatype endpoint =
    Metadata
  | Values string
  | RowRange string char nat
  | AppendTo string
  | ClearRow string char nat

text \<open>
  What reaches \<^verbatim>\<open>blink.data.fetch\<close>: the spreadsheet of the URL, the endpoint, the
  method and the \<^verbatim>\<open>values\<close> of the JSON body, if there is a body.
\<close>

record request =
  spreadsheet :: "string option"
  endpoint :: endpoint
  httpMethod :: httpMethod
  payload :: "grid option"

text \<open>
  The members of a response body that the store reads: \<^verbatim>\<open>values\<close>, whether a truthy
  \<^verbatim>\<open>properties\<close> is there, \<^verbatim>\<open>error.message\<close>, and \<^verbatim>\<open>error.details\<close> as the
  text \<^verbatim>\<open>JSON.stringify\<close> gives for it.
\<close>

record responseBody =
  sheetValues :: "grid option"
  properties :: bool
  errorMessage :: "string option"
  errorDetails :: "string option"

record httpResponse =
  statusCode :: nat
  body :: "responseBody option"

text \<open>
  The fetch either rejects, with an \<^verbatim>\<open>Error\<close> carrying a message (\<open>Some\<close>) or with
  another value (\<open>None\<close>), or it resolves to a response.
\<close>

datatype fetchOutcome = Rejected "string option" | Responded httpResponse

text \<open>
  The remote is any function from a request and the state of the world to an outcome
  and the next state.
\<close>

type_synonym 'w remote = "request \<Rightarrow> 'w \<Rightarrow> fetchOutcome \<times> 'w"

text \<open>What the store's functions throw, by origin.\<close>

datatype exn =
    FetchRejected "string option"
  | ApiError string
  | TypeError
  | NotFound string


text \<open>A number inside a template string.\<close>

definition digitChar :: "nat \<Rightarrow> char" where
  "digitChar d = ''0123456789'' ! d"

fun decimal :: "nat \<Rightarrow> string" where
  "decimal n =
     (if n < 10 then [digitChar n]
      else decimal (n div 10) @ [digitChar (n mod 10)])"

declare decimal.simps [simp del]

definition apiErrorMessage :: "httpResponse \<Rightarrow> string" where
  "apiErrorMessage r =
     ''Google Sheets API error: '' @ decimal (statusCode r)
     @ (case body r of None \<Rightarrow> []
        | Some b \<Rightarrow>
            (case errorMessage b of None \<Rightarrow> []
             | Some m \<Rightarrow> (if m = [] then [] else '' - '' @ m))
            @ (case errorDetails b of None \<Rightarrow> []
               | Some d \<Rightarrow> '' ('' @ d @ '')''))"

definition makeRequest ::
  "'w remote \<Rightarrow> service \<Rightarrow> endpoint \<Rightarrow> httpMethod \<Rightarrow> grid option \<Rightarrow> 'w
     \<Rightarrow> (exn + responseBody option) \<times> 'w" where
  "makeRequest R svc ep m vals w =
     (case R \<lparr>spreadsheet = sheetId svc, endpoint = ep, httpMethod = m, payload = vals\<rparr> w of
        (Rejected msg, w') \<Rightarrow> (Inl (FetchRejected msg), w')
      | (Responded r, w') \<Rightarrow>
          (if 400 \<le> statusCode r then (Inl (ApiError (apiErrorMessage r)), w')
           else (Inr (body r), w')))"

subsection \<open>Sheet initialisation\<close>

definition appointmentHeaders :: row where
  "appointmentHeaders =
     [''ID'', ''Patient Name'', ''Patient Phone'', ''Patient Email'',
      ''Appointment Date'', ''Appointment Time'', ''Service Type'',
      ''Status'', ''Notes'', ''WhatsApp Message ID'', ''SMS Message ID'',
      ''Created At'', ''Updated At'', ''User ID'']"

definition patientHeaders :: row where
  "patientHeaders =
     [''ID'', ''Name'', ''Phone'', ''Email'', ''Date of Birth'',
      ''Address'', ''Emergency Contact'', ''Medical Notes'',
      ''Created At'', ''Updated At'', ''User ID'']"

text \<open>The result of an awaited write whose response is not read: what it threw, or nothing.\<close>

definition written :: "(exn + responseBody option) \<times> 'w \<Rightarrow> (exn + unit) \<times> 'w" where
  "written x = (case x of (Inl e, w) \<Rightarrow> (Inl e, w) | (Inr _, w) \<Rightarrow> (Inr (), w))"

definition ensureAppointmentsSheet :: "'w remote \<Rightarrow> service \<Rightarrow> 'w \<Rightarrow> (exn + unit) \<times> 'w" where
  "ensureAppointmentsSheet R svc w =
     (case makeRequest R svc (RowRange (appointmentsSheet svc) CHR ''N'' 1) GET None w of
        (Inr _, w1) \<Rightarrow> (Inr (), w1)
      | (Inl _, w1) \<Rightarrow>
          written (makeRequest R svc (RowRange (appointmentsSheet svc) CHR ''N'' 1) PUT
                     (Some [appointmentHeaders]) w1))"

definition ensurePatientsSheet :: "'w remote \<Rightarrow> service \<Rightarrow> 'w \<Rightarrow> (exn + unit) \<times> 'w" where
  "ensurePatientsSheet R svc w =
     (case makeRequest R svc (RowRange (patientsSheet svc) CHR ''K'' 1) GET None w of
        (Inr _, w1) \<Rightarrow> (Inr (), w1)
      | (Inl _, w1) \<Rightarrow>
          written (makeRequest R svc (RowRange (patientsSheet svc) CHR ''K'' 1) PUT
                     (Some [patientHeaders]) w1))"

definition initializeSheets :: "'w remote \<Rightarrow> service \<Rightarrow> 'w \<Rightarrow> (exn + unit) \<times> 'w" where
  "initializeSheets R svc w =
     (case ensureAppointmentsSheet R svc w of
        (Inl e, w1) \<Rightarrow> (Inl e, w1)
      | (Inr _, w1) \<Rightarrow> ensurePatientsSheet R svc w1)"

subsection \<open>Appointments\<close>

text \<open>
  The body of the \<^verbatim>\<open>try\<close> of getAppointments; reading \<^verbatim>\<open>values\<close> of a missing
  body is a TypeError.
\<close>

definition getAppointmentsTry ::
  "'w remote \<Rightarrow> service \<Rightarrow> string \<Rightarrow> 'w \<Rightarrow> (exn + appointment list) \<times> 'w" where
  "getAppointmentsTry R svc userId w =
     (case makeRequest R svc (Values (appointmentsSheet svc)) GET None w of
        (Inl e, w') \<Rightarrow> (Inl e, w')
      | (Inr None, w') \<Rightarrow> (Inl TypeError, w')
      | (Inr (Some response), w') \<Rightarrow>
          (let rows = (case sheetValues response of None \<Rightarrow> [] | Some v \<Rightarrow> v)
           in if length rows \<le> 1 then (Inr [], w')
              else (Inr (scanAppointments userId (tl rows)), w')))"

text \<open>With its \<^verbatim>\<open>catch\<close>, which returns the empty array.\<close>

definition getAppointments ::
  "'w remote \<Rightarrow> service \<Rightarrow> string \<Rightarrow> 'w \<Rightarrow> appointment list \<times> 'w" where
  "getAppointments R svc userId w =
     (case getAppointmentsTry R svc userId w of
        (Inl err, w') \<Rightarrow> ([], w')
      | (Inr appointments, w') \<Rightarrow> (appointments, w'))"

text \<open>createAppointment; the generated identifier and the clock are parameters.\<close>

definition createAppointment ::
  "'w remote \<Rightarrow> service \<Rightarrow> appointment \<Rightarrow> string \<Rightarrow> string \<Rightarrow> 'w
     \<Rightarrow> (exn + appointment) \<times> 'w" where
  "createAppointment R svc a newId now w =
     (let newAppointment = a\<lparr>idA := newId, createdAtA := now, updatedAtA := now\<rparr>
      in case makeRequest R svc (AppendTo (appointmentsSheet svc)) POST
                (Some [appointmentRow newAppointment]) w of
           (Inl e, w') \<Rightarrow> (Inl e, w')
         | (Inr _, w') \<Rightarrow> (Inr newAppointment, w'))"

text \<open>
  The object spread
  \<^verbatim>\<open>{...appointments[appointmentIndex], ...updates, updatedAt: new Date().toISOString()}\<close>.
\<close>

definition mergeAppointment :: "appointment \<Rightarrow> appointmentUpdates \<Rightarrow> string \<Rightarrow> appointment" where
  "mergeAppointment a u now =
     \<lparr>idA = (case u_idA u of None \<Rightarrow> idA a | Some v \<Rightarrow> v),
      patientName = (case u_patientName u of None \<Rightarrow> patientName a | Some v \<Rightarrow> v),
      patientPhone = (case u_patientPhone u of None \<Rightarrow> patientPhone a | Some v \<Rightarrow> v),
      patientEmail = (case u_patientEmail u of None \<Rightarrow> patientEmail a | Some v \<Rightarrow> Some v),
      appointmentDate =
        (case u_appointmentDate u of None \<Rightarrow> appointmentDate a | Some v \<Rightarrow> v),
      appointmentTime =
        (case u_appointmentTime u of None \<Rightarrow> appointmentTime a | Some v \<Rightarrow> v),
      serviceType = (case u_serviceType u of None \<Rightarrow> serviceType a | Some v \<Rightarrow> v),
      status = (case u_status u of None \<Rightarrow> status a | Some v \<Rightarrow> v),
      notesA = (case u_notesA u of None \<Rightarrow> notesA a | Some v \<Rightarrow> Some v),
      whatsappMessageId =
        (case u_whatsappMessageId u of None \<Rightarrow> whatsappMessageId a | Some v \<Rightarrow> Some v),
      smsMessageId =
        (case u_smsMessageId u of None \<Rightarrow> smsMessageId a | Some v \<Rightarrow> Some v),
      createdAtA = (case u_createdAtA u of None \<Rightarrow> createdAtA a | Some v \<Rightarrow> v),
      updatedAtA = now,
      userIdA = (case u_userIdA u of None \<Rightarrow> userIdA a | Some v \<Rightarrow> v)\<rparr>"

definition updateAppointment ::
  "'w remote \<Rightarrow> service \<Rightarrow> string \<Rightarrow> appointmentUpdates \<Rightarrow> string \<Rightarrow> 'w
     \<Rightarrow> (exn + unit) \<times> 'w" where
  "updateAppointment R svc ident updates now w =
     (case getAppointments R svc (orElse (u_userIdA updates) '''') w of
        (appointments, w1) \<Rightarrow>
          (case findIndex (\<lambda>apt. idA apt = ident) appointments of
             None \<Rightarrow> (Inl (NotFound ''Appointment not found''), w1)
           | Some appointmentIndex \<Rightarrow>
               (let updatedAppointment =
                      mergeAppointment (appointments ! appointmentIndex) updates now;
                    rowNumber = appointmentIndex + 2
                in written (makeRequest R svc
                              (RowRange (appointmentsSheet svc) CHR ''N'' rowNumber) PUT
                              (Some [appointmentRow updatedAppointment]) w1))))"

definition deleteAppointment ::
  "'w remote \<Rightarrow> service \<Rightarrow> string \<Rightarrow> string \<Rightarrow> 'w \<Rightarrow> (exn + unit) \<times> 'w" where
  "deleteAppointment R svc ident userId w =
     (case getAppointments R svc userId w of
        (appointments, w1) \<Rightarrow>
          (case findIndex (\<lambda>apt. idA apt = ident) appointments of
             None \<Rightarrow> (Inl (NotFound ''Appointment not found''), w1)
           | Some appointmentIndex \<Rightarrow>
               (let rowNumber = appointmentIndex + 2
                in written (makeRequest R svc
                              (ClearRow (appointmentsSheet svc) CHR ''N'' rowNumber) POST
                              None w1))))"

subsection \<open>Patients\<close>

definition getPatientsTry ::
  "'w remote \<Rightarrow> service \<Rightarrow> string \<Rightarrow> 'w \<Rightarrow> (exn + patient list) \<times> 'w" where
  "getPatientsTry R svc userId w =
     (case makeRequest R svc (Values (patientsSheet svc)) GET None w of
        (Inl e, w') \<Rightarrow> (Inl e, w')
      | (Inr None, w') \<Rightarrow> (Inl TypeError, w')
      | (Inr (Some response), w') \<Rightarrow>
          (let rows = (case sheetValues response of None \<Rightarrow> [] | Some v \<Rightarrow> v)
           in if length rows \<le> 1 then (Inr [], w')
              else (Inr (scanPatients userId (tl rows)), w')))"

definition getPatients ::
  "'w remote \<Rightarrow> service \<Rightarrow> string \<Rightarrow> 'w \<Rightarrow> patient list \<times> 'w" where
  "getPatients R svc userId w =
     (case getPatientsTry R svc userId w of
        (Inl err, w') \<Rightarrow> ([], w')
      | (Inr patients, w') \<Rightarrow> (patients, w'))"

definition createPatient ::
  "'w remote \<Rightarrow> service \<Rightarrow> patient \<Rightarrow> string \<Rightarrow> string \<Rightarrow> 'w
     \<Rightarrow> (exn + patient) \<times> 'w" where
  "createPatient R svc p newId now w =
     (let newPatient = p\<lparr>idP := newId, createdAtP := now, updatedAtP := now\<rparr>
      in case makeRequest R svc (AppendTo (patientsSheet svc)) POST
                (Some [patientRow newPatient]) w of
           (Inl e, w') \<Rightarrow> (Inl e, w')
         | (Inr _, w') \<Rightarrow> (Inr newPatient, w'))"

definition mergePatient :: "patient \<Rightarrow> patientUpdates \<Rightarrow> string \<Rightarrow> patient" where
  "mergePatient p u now =
     \<lparr>idP = (case u_idP u of None \<Rightarrow> idP p | Some v \<Rightarrow> v),
      name = (case u_name u of None \<Rightarrow> name p | Some v \<Rightarrow> v),
      phone = (case u_phone u of None \<Rightarrow> phone p | Some v \<Rightarrow> v),
      email = (case u_email u of None \<Rightarrow> email p | Some v \<Rightarrow> Some v),
      dateOfBirth = (case u_dateOfBirth u of None \<Rightarrow> dateOfBirth p | Some v \<Rightarrow> Some v),
      address = (case u_address u of None \<Rightarrow> address p | Some v \<Rightarrow> Some v),
      emergencyContact =
        (case u_emergencyContact u of None \<Rightarrow> emergencyContact p | Some v \<Rightarrow> Some v),
      medicalNotes =
        (case u_medicalNotes u of None \<Rightarrow> medicalNotes p | Some v \<Rightarrow> Some v),
      createdAtP = (case u_createdAtP u of None \<Rightarrow> createdAtP p | Some v \<Rightarrow> v),
      updatedAtP = now,
      userIdP = (case u_userIdP u of None \<Rightarrow> userIdP p | Some v \<Rightarrow> v)\<rparr>"

definition updatePatient ::
  "'w remote \<Rightarrow> service \<Rightarrow> string \<Rightarrow> patientUpdates \<Rightarrow> string \<Rightarrow> 'w
     \<Rightarrow> (exn + unit) \<times> 'w" where
  "updatePatient R svc ident updates now w =
     (case getPatients R svc (orElse (u_userIdP updates) '''') w of
        (patients, w1) \<Rightarrow>
          (case findIndex (\<lambda>pat. idP pat = ident) patients of
             None \<Rightarrow> (Inl (NotFound ''Patient not found''), w1)
           | Some patientIndex \<Rightarrow>
               (let updatedPatient = mergePatient (patients ! patientIndex) updates now;
                    rowNumber = patientIndex + 2
                in written (makeRequest R svc
                              (RowRange (patientsSheet svc) CHR ''K'' rowNumber) PUT
                              (Some [patientRow updatedPatient]) w1))))"

definition deletePatient ::
  "'w remote \<Rightarrow> service \<Rightarrow> string \<Rightarrow> string \<Rightarrow> 'w \<Rightarrow> (exn + unit) \<times> 'w" where
  "deletePatient R svc ident userId w =
     (case getPatients R svc userId w of
        (patients, w1) \<Rightarrow>
          (case findIndex (\<lambda>pat. idP pat = ident) patients of
             None \<Rightarrow> (Inl (NotFound ''Patient not found''), w1)
           | Some patientIndex \<Rightarrow>
               (let rowNumber = patientIndex + 2
                in written (makeRequest R svc
                              (ClearRow (patientsSheet svc) CHR ''K'' rowNumber) POST
                              None w1))))"

subsection \<open>Connection test\<close>



record connectionResult =
  success :: bool
  error :: "string option"






subsection \<open>A spreadsheet as the remote\<close>

text \<open>
  The service behind \<^verbatim>\<open>blink.data.fetch\<close> is not part of the repository. Statements
  about what is stored after a write are made against this reference remote: one
  spreadsheet with named tabs, each a grid of rows counted from 1, which answers every
  request the way the Sheets API documents it and keeps a log of the requests it received.
  \<^item> A read omits trailing empty cells of a row and trailing empty rows; an empty result
    has no \<^verbatim>\<open>values\<close> member.
  \<^item> An overwrite of a row range replaces as many cells as it is given, from column A.
  \<^item> A clear empties the cells of the range and keeps the row.
  \<^item> An append adds the rows after the last row that holds data.
\<close>

record spreadsheetState =
  ssId :: string
  tabs :: "(string \<times> grid) list"
  requests :: "request list"

definition trimCells :: "row \<Rightarrow> row" where
  "trimCells r = rev (dropWhile (\<lambda>c. c = []) (rev r))"

definition trimRows :: "grid \<Rightarrow> grid" where
  "trimRows g = rev (dropWhile (\<lambda>r. r = []) (rev g))"

definition served :: "grid \<Rightarrow> grid" where
  "served g = trimRows (map trimCells g)"

text \<open>The number of columns from A to the given column letter.\<close>

definition columnsTo :: "char \<Rightarrow> nat" where
  "columnsTo c = of_char c - 64"

definition rowAt :: "grid \<Rightarrow> nat \<Rightarrow> row" where
  "rowAt g n = (if 0 < n \<and> n \<le> length g then g ! (n - 1) else [])"

definition writeRow :: "nat \<Rightarrow> row \<Rightarrow> grid \<Rightarrow> grid" where
  "writeRow n new g =
     (let padded = g @ replicate (n - length g) []
      in padded[n - 1 := new @ drop (length new) (padded ! (n - 1))])"

definition clearRow :: "nat \<Rightarrow> nat \<Rightarrow> grid \<Rightarrow> grid" where
  "clearRow n cols g =
     (if 0 < n \<and> n \<le> length g
      then g[n - 1 := replicate cols [] @ drop cols (g ! (n - 1))]
      else g)"

definition appendRows :: "grid \<Rightarrow> grid \<Rightarrow> grid" where
  "appendRows g new = rev (dropWhile (\<lambda>r. trimCells r = []) (rev g)) @ new"

definition setTab :: "string \<Rightarrow> grid \<Rightarrow> (string \<times> grid) list \<Rightarrow> (string \<times> grid) list" where
  "setTab t g ts = map (\<lambda>(n, x). if n = t then (n, g) else (n, x)) ts"

definition okBody :: "grid option \<Rightarrow> bool \<Rightarrow> fetchOutcome" where
  "okBody v p =
     Responded \<lparr>statusCode = 200,
       body = Some \<lparr>sheetValues = v, properties = p, errorMessage = None, errorDetails = None\<rparr>\<rparr>"

definition valuesOf :: "grid \<Rightarrow> grid option" where
  "valuesOf rows = (if rows = [] then None else Some rows)"

definition failed :: "nat \<Rightarrow> string \<Rightarrow> fetchOutcome" where
  "failed code m =
     Responded \<lparr>statusCode = code,
       body = Some \<lparr>sheetValues = None, properties = False,
                    errorMessage = Some m, errorDetails = None\<rparr>\<rparr>"

fun respond ::
  "endpoint \<Rightarrow> httpMethod \<Rightarrow> grid option \<Rightarrow> (string \<times> grid) list
     \<Rightarrow> fetchOutcome \<times> (string \<times> grid) list" where
  "respond Metadata GET vals ts = (okBody None True, ts)"
| "respond (Values t) GET vals ts =
     (case map_of ts t of
        None \<Rightarrow> (failed 400 (''Unable to parse range: '' @ t), ts)
      | Some g \<Rightarrow> (okBody (valuesOf (served g)) False, ts))"
| "respond (RowRange t c n) GET vals ts =
     (case map_of ts t of
        None \<Rightarrow> (failed 400 (''Unable to parse range: '' @ t), ts)
      | Some g \<Rightarrow>
          (if n = 0 then (failed 400 (''Unable to parse range: '' @ t), ts)
           else (okBody (valuesOf (served [take (columnsTo c) (rowAt g n)])) False, ts)))"
| "respond (RowRange t c n) PUT vals ts =
     (case (map_of ts t, vals) of
        (Some g, Some [new]) \<Rightarrow>
          (if n = 0 \<or> columnsTo c < length new
           then (failed 400 ''Requested writing outside the range'', ts)
           else (okBody None False, setTab t (writeRow n new g) ts))
      | _ \<Rightarrow> (failed 400 (''Unable to parse range: '' @ t), ts))"
| "respond (ClearRow t c n) POST vals ts =
     (case map_of ts t of
        None \<Rightarrow> (failed 400 (''Unable to parse range: '' @ t), ts)
      | Some g \<Rightarrow>
          (if n = 0 then (failed 400 (''Unable to parse range: '' @ t), ts)
           else (okBody None False, setTab t (clearRow n (columnsTo c) g) ts)))"
| "respond (AppendTo t) POST vals ts =
     (case (map_of ts t, vals) of
        (Some g, Some new) \<Rightarrow> (okBody None False, setTab t (appendRows g new) ts)
      | _ \<Rightarrow> (failed 400 (''Unable to parse range: '' @ t), ts))"
| "respond ep m vals ts = (failed 404 ''Not found'', ts)"

definition sheets :: "spreadsheetState remote" where
  "sheets req s =
     (let logged = s\<lparr>requests := requests s @ [req]\<rparr>
      in if spreadsheet req \<noteq> Some (ssId s)
         then (failed 404 ''Requested entity was not found.'', logged)
         else (case respond (endpoint req) (httpMethod req) (payload req) (tabs s) of
                 (outcome, ts) \<Rightarrow> (outcome, logged\<lparr>tabs := ts\<rparr>)))"

subsection \<open>Sample data\<close>

text \<open>
  A spreadsheet of two owners, \<open>A\<close> and \<open>B\<close>, whose rows alternate, and the pieces the
  concrete statements below are evaluated on.
\<close>

definition clinic :: service where
  "clinic = GoogleSheetsService
     \<lparr>spreadsheetId = Some ''S'', appointmentsSheetName = None, patientsSheetName = None\<rparr>"

definition unconfigured :: service where
  "unconfigured = GoogleSheetsService
     \<lparr>spreadsheetId = None, appointmentsSheetName = None, patientsSheetName = None\<rparr>"

definition bobVisit :: row where
  "bobVisit = [''b1'', ''Bob'', ''555'', '''', ''2024-01-01'', ''10:00'', ''Checkup'',
     ''pending'', '''', '''', '''', ''t0'', ''t0'', ''B'']"

definition annVisit :: row where
  "annVisit = [''a1'', ''Ann'', ''556'', '''', ''2024-01-02'', ''11:00'', ''Checkup'',
     ''pending'', '''', '''', '''', ''t1'', ''t1'', ''A'']"

definition bobFile :: row where
  "bobFile = [''p1'', ''Bob'', ''555'', '''', '''', '''', '''', '''', ''t0'', ''t0'', ''B'']"

definition annFile :: row where
  "annFile = [''p2'', ''Ann'', ''556'', '''', '''', '''', '''', '''', ''t1'', ''t1'', ''A'']"

definition sampleSheet :: spreadsheetState where
  "sampleSheet =
     \<lparr>ssId = ''S'',
      tabs = [(''Appointments'', [appointmentHeaders, bobVisit, annVisit]),
              (''Patients'', [patientHeaders, bobFile, annFile])],
      requests = []\<rparr>"

definition headersOnly :: spreadsheetState where
  "headersOnly =
     \<lparr>ssId = ''S'',
      tabs = [(''Appointments'', [appointmentHeaders]), (''Patients'', [patientHeaders])],
      requests = []\<rparr>"

definition blankSheet :: spreadsheetState where
  "blankSheet =
     \<lparr>ssId = ''S'', tabs = [(''Appointments'', []), (''Patients'', [])], requests = []\<rparr>"

definition noAppointmentUpdates :: appointmentUpdates where
  "noAppointmentUpdates =
     \<lparr>u_idA = None, u_patientName = None, u_patientPhone = None, u_patientEmail = None,
      u_appointmentDate = None, u_appointmentTime = None, u_serviceType = None,
      u_status = None, u_notesA = None, u_whatsappMessageId = None, u_smsMessageId = None,
      u_createdAtA = None, u_updatedAtA = None, u_userIdA = None\<rparr>"

definition noPatientUpdates :: patientUpdates where
  "noPatientUpdates =
     \<lparr>u_idP = None, u_name = None, u_phone = None, u_email = None, u_dateOfBirth = None,
      u_address = None, u_emergencyContact = None, u_medicalNotes = None,
      u_createdAtP = None, u_updatedAtP = None, u_userIdP = None\<rparr>"

text \<open>The update the appointments view sends on a status change, and a patient edit.\<close>

definition confirmForA :: appointmentUpdates where
  "confirmForA = noAppointmentUpdates\<lparr>u_status := Some ''confirmed'', u_userIdA := Some ''A''\<rparr>"

definition renameForA :: patientUpdates where
  "renameForA = noPatientUpdates\<lparr>u_name := Some ''Anna'', u_userIdP := Some ''A''\<rparr>"

text \<open>A remote that is unreachable, and one that refuses the probe.\<close>

definition offline :: "unit remote" where
  "offline req w = (Rejected (Some ''Failed to fetch''), w)"

definition refusing :: "unit remote" where
  "refusing req w =
     (failed 403 ''Google Sheets API has not been used in project 540412345 before'', w)"

definition bare :: "nat \<Rightarrow> unit remote" where
  "bare code req w = (Responded \<lparr>statusCode = code, body = None\<rparr>, w)"

subsection \<open>Vocabulary of the statements\<close>

text \<open>The request that fetches a whole tab, and the metadata probe.\<close>

definition tableRequest :: "service \<Rightarrow> string \<Rightarrow> request" where
  "tableRequest svc t =
     \<lparr>spreadsheet = sheetId svc, endpoint = Values t, httpMethod = GET, payload = None\<rparr>"


text \<open>A fetch fails when it rejects or answers with a status of 400 or more.\<close>

definition fetchFailed :: "fetchOutcome \<Rightarrow> bool" where
  "fetchFailed out = (case out of Rejected m \<Rightarrow> True | Responded r \<Rightarrow> 400 \<le> statusCode r)"

text \<open>The rows a response carries; none when there is no body or no \<^verbatim>\<open>values\<close>.\<close>

definition fetchedRows :: "fetchOutcome \<Rightarrow> grid" where
  "fetchedRows out =
     (case out of
        Rejected m \<Rightarrow> []
      | Responded r \<Rightarrow>
          (case body r of
             None \<Rightarrow> []
           | Some b \<Rightarrow> (case sheetValues b of None \<Rightarrow> [] | Some v \<Rightarrow> v)))"



definition isNotFound :: "exn + 'a \<Rightarrow> bool" where
  "isNotFound x = (case x of Inl (NotFound m) \<Rightarrow> True | _ \<Rightarrow> False)"

text \<open>The keys of an update in column order, and their overlay on a row: a key that is
  present replaces the cell of its column.\<close>

definition appointmentKeys :: "appointmentUpdates \<Rightarrow> string option list" where
  "appointmentKeys u =
     [u_idA u, u_patientName u, u_patientPhone u, u_patientEmail u, u_appointmentDate u,
      u_appointmentTime u, u_serviceType u, u_status u, u_notesA u, u_whatsappMessageId u,
      u_smsMessageId u, u_createdAtA u, u_updatedAtA u, u_userIdA u]"

definition patientKeys :: "patientUpdates \<Rightarrow> string option list" where
  "patientKeys u =
     [u_idP u, u_name u, u_phone u, u_email u, u_dateOfBirth u, u_address u,
      u_emergencyContact u, u_medicalNotes u, u_createdAtP u, u_updatedAtP u, u_userIdP u]"

definition overlay :: "string option list \<Rightarrow> row \<Rightarrow> row" where
  "overlay ks r = map2 (\<lambda>k old. case k of None \<Rightarrow> old | Some v \<Rightarrow> v) ks r"

section \<open>Properties\<close>

subsection \<open>The scan keeps the rows of one owner\<close>

lemma scanAppointments_filter:
  "scanAppointments userId rows =
     map appointmentOfRow (filter (\<lambda>r. cell r 13 = Some userId) rows)"
  by (induction rows) simp_all

lemma scanPatients_filter:
  "scanPatients userId rows = map patientOfRow (filter (\<lambda>r. cell r 10 = Some userId) rows)"
  by (induction rows) simp_all

lemma owner_of_kept_appointment:
  "cell r 13 = Some userId \<Longrightarrow> userIdA (appointmentOfRow r) = userId"
  by (simp add: appointmentOfRow_def orElse_def)

lemma owner_of_kept_patient:
  "cell r 10 = Some userId \<Longrightarrow> userIdP (patientOfRow r) = userId"
  by (simp add: patientOfRow_def orElse_def)

lemma scanAppointments_owner:
  "a \<in> set (scanAppointments userId rows) \<Longrightarrow> userIdA a = userId"
  by (auto simp: scanAppointments_filter owner_of_kept_appointment)

lemma scanPatients_owner:
  "p \<in> set (scanPatients userId rows) \<Longrightarrow> userIdP p = userId"
  by (auto simp: scanPatients_filter owner_of_kept_patient)

lemma getAppointments_cases:
  "fst (getAppointments R svc userId w) = [] \<or>
   (\<exists>rows. fst (getAppointments R svc userId w) = scanAppointments userId rows)"
  by (auto simp: getAppointments_def getAppointmentsTry_def Let_def
      split: prod.splits sum.splits option.splits)

lemma getPatients_cases:
  "fst (getPatients R svc userId w) = [] \<or>
   (\<exists>rows. fst (getPatients R svc userId w) = scanPatients userId rows)"
  by (auto simp: getPatients_def getPatientsTry_def Let_def
      split: prod.splits sum.splits option.splits)

lemmas sample_defs =
  clinic_def unconfigured_def GoogleSheetsService_def sampleSheet_def headersOnly_def
  blankSheet_def bobVisit_def annVisit_def bobFile_def annFile_def appointmentHeaders_def
  patientHeaders_def noAppointmentUpdates_def noPatientUpdates_def confirmForA_def
  renameForA_def offline_def refusing_def bare_def

lemmas list_defs =
  getAppointments_def getAppointmentsTry_def getPatients_def getPatientsTry_def
  makeRequest_def sheets_def okBody_def valuesOf_def failed_def served_def trimRows_def
  trimCells_def cell_def orElse_def appointmentOfRow_def patientOfRow_def

text \<open>
  Claim C3. Whatever the remote answers, every appointment that getAppointments returns
  for an owner, and every patient that getPatients returns, carries that owner in its
  owner field.
\<close>

theorem list_returns_only_owner:
  "(\<forall>a \<in> set (fst (getAppointments R svc userId w)). userIdA a = userId) \<and>
   (\<forall>p \<in> set (fst (getPatients R svc userId w)). userIdP p = userId)"
proof
  show "\<forall>a \<in> set (fst (getAppointments R svc userId w)). userIdA a = userId"
    using getAppointments_cases [of R svc userId w] by (auto dest: scanAppointments_owner)
  show "\<forall>p \<in> set (fst (getPatients R svc userId w)). userIdP p = userId"
    using getPatients_cases [of R svc userId w] by (auto dest: scanPatients_owner)
qed

theorem list_returns_only_owner_witness:
  "appointmentOfRow annVisit \<in> set (fst (getAppointments sheets clinic ''A'' sampleSheet))
   \<and> userIdA (appointmentOfRow annVisit) = ''A''
   \<and> patientOfRow annFile \<in> set (fst (getPatients sheets clinic ''A'' sampleSheet))
   \<and> userIdP (patientOfRow annFile) = ''A''"
proof -
  have a: "appointmentOfRow annVisit \<in> set (fst (getAppointments sheets clinic ''A'' sampleSheet))"
    by (simp add: sample_defs list_defs)
  have p: "patientOfRow annFile \<in> set (fst (getPatients sheets clinic ''A'' sampleSheet))"
    by (simp add: sample_defs list_defs)
  from a p list_returns_only_owner [of sheets clinic "''A''" sampleSheet]
  show ?thesis by blast
qed

subsection \<open>Round trip through a row\<close>

text \<open>
  Claim C5, as the code has it. Writing an entity into its row and reading the row back
  gives every required field unchanged; an optional field comes back as its string when
  it was present and as the empty string when it was absent, and an empty status comes
  back as \<open>pending\<close>.
\<close>

theorem round_trip_up_to_absent_fields:
  "appointmentOfRow (appointmentRow a) =
     a\<lparr>patientEmail := Some (orElse (patientEmail a) ''''),
       status := orElse (Some (status a)) ''pending'',
       notesA := Some (orElse (notesA a) ''''),
       whatsappMessageId := Some (orElse (whatsappMessageId a) ''''),
       smsMessageId := Some (orElse (smsMessageId a) '''')\<rparr>
   \<and> patientOfRow (patientRow p) =
     p\<lparr>email := Some (orElse (email p) ''''),
       dateOfBirth := Some (orElse (dateOfBirth p) ''''),
       address := Some (orElse (address p) ''''),
       emergencyContact := Some (orElse (emergencyContact p) ''''),
       medicalNotes := Some (orElse (medicalNotes p) '''')\<rparr>"
  by (simp add: appointmentOfRow_def appointmentRow_def patientOfRow_def patientRow_def
      cell_def orElse_def split: option.splits)

text \<open>
  Claim C5 as stated fails: an appointment without a patientEmail comes back with the
  empty string as its patientEmail.
\<close>

theorem round_trip_absent_email_counterexample:
  "appointmentOfRow (appointmentRow
      \<lparr>idA = ''a1'', patientName = ''Ann'', patientPhone = ''556'', patientEmail = None,
       appointmentDate = ''2024-01-02'', appointmentTime = ''11:00'',
       serviceType = ''Checkup'', status = ''pending'', notesA = None,
       whatsappMessageId = None, smsMessageId = None, createdAtA = ''t1'',
       updatedAtA = ''t1'', userIdA = ''A''\<rparr>)
   \<noteq> \<lparr>idA = ''a1'', patientName = ''Ann'', patientPhone = ''556'', patientEmail = None,
       appointmentDate = ''2024-01-02'', appointmentTime = ''11:00'',
       serviceType = ''Checkup'', status = ''pending'', notesA = None,
       whatsappMessageId = None, smsMessageId = None, createdAtA = ''t1'',
       updatedAtA = ''t1'', userIdA = ''A''\<rparr>"
  by (simp add: appointmentOfRow_def appointmentRow_def cell_def orElse_def)

subsection \<open>Reads never fail\<close>

lemma getAppointments_caught:
  "fst (getAppointmentsTry R svc userId w) = Inl e \<Longrightarrow> fst (getAppointments R svc userId w) = []"
  by (auto simp: getAppointments_def split: prod.splits sum.splits)

lemma getPatients_caught:
  "fst (getPatientsTry R svc userId w) = Inl e \<Longrightarrow> fst (getPatients R svc userId w) = []"
  by (auto simp: getPatients_def split: prod.splits sum.splits)

lemma getAppointments_empty:
  assumes "fetchFailed (fst (R (tableRequest svc (appointmentsSheet svc)) w))
         \<or> length (fetchedRows (fst (R (tableRequest svc (appointmentsSheet svc)) w))) \<le> 1"
  shows "fst (getAppointments R svc userId w) = []"
  using assms
  by (auto simp: getAppointments_def getAppointmentsTry_def makeRequest_def tableRequest_def
      fetchFailed_def fetchedRows_def Let_def
      split: prod.splits sum.splits option.splits fetchOutcome.splits if_splits)

lemma getPatients_empty:
  assumes "fetchFailed (fst (R (tableRequest svc (patientsSheet svc)) w))
         \<or> length (fetchedRows (fst (R (tableRequest svc (patientsSheet svc)) w))) \<le> 1"
  shows "fst (getPatients R svc userId w) = []"
  using assms
  by (auto simp: getPatients_def getPatientsTry_def makeRequest_def tableRequest_def
      fetchFailed_def fetchedRows_def Let_def
      split: prod.splits sum.splits option.splits fetchOutcome.splits if_splits)

text \<open>
  Claim C6. For every remote: when the fetch of the tab fails, or the fetched table has
  at most one row, getAppointments and getPatients return the empty list; and whatever
  is thrown inside their \<^verbatim>\<open>try\<close> is turned into the empty list, so nothing escapes.
\<close>

theorem list_empty_on_failure_or_no_data:
  "(fetchFailed (fst (R (tableRequest svc (appointmentsSheet svc)) w))
      \<or> length (fetchedRows (fst (R (tableRequest svc (appointmentsSheet svc)) w))) \<le> 1
      \<longrightarrow> fst (getAppointments R svc userId w) = [])
   \<and> (fetchFailed (fst (R (tableRequest svc (patientsSheet svc)) w))
      \<or> length (fetchedRows (fst (R (tableRequest svc (patientsSheet svc)) w))) \<le> 1
      \<longrightarrow> fst (getPatients R svc userId w) = [])
   \<and> (\<forall>e. fst (getAppointmentsTry R svc userId w) = Inl e
      \<longrightarrow> fst (getAppointments R svc userId w) = [])
   \<and> (\<forall>e. fst (getPatientsTry R svc userId w) = Inl e
      \<longrightarrow> fst (getPatients R svc userId w) = [])"
  using getAppointments_empty [of R svc w userId] getPatients_empty [of R svc w userId]
    getAppointments_caught [of R svc userId w] getPatients_caught [of R svc userId w]
  by blast

theorem list_empty_on_failure_or_no_data_witness:
  "fetchFailed (fst (offline (tableRequest clinic (appointmentsSheet clinic)) ()))
   \<and> fetchFailed (fst (offline (tableRequest clinic (patientsSheet clinic)) ()))
   \<and> fst (getAppointmentsTry offline clinic ''A'' ()) = Inl (FetchRejected (Some ''Failed to fetch''))
   \<and> fst (getPatientsTry offline clinic ''A'' ()) = Inl (FetchRejected (Some ''Failed to fetch''))
   \<and> fst (getAppointments offline clinic ''A'' ()) = []
   \<and> fst (getPatients offline clinic ''A'' ()) = []
   \<and> length (fetchedRows (fst (sheets (tableRequest clinic (appointmentsSheet clinic)) headersOnly))) \<le> 1
   \<and> length (fetchedRows (fst (sheets (tableRequest clinic (patientsSheet clinic)) headersOnly))) \<le> 1
   \<and> fst (getAppointments sheets clinic ''A'' headersOnly) = []
   \<and> fst (getPatients sheets clinic ''A'' headersOnly) = []"
proof -
  have f: "fetchFailed (fst (offline (tableRequest clinic (appointmentsSheet clinic)) ()))"
    "fetchFailed (fst (offline (tableRequest clinic (patientsSheet clinic)) ()))"
    by (simp_all add: offline_def fetchFailed_def)
  have t: "fst (getAppointmentsTry offline clinic ''A'' ()) = Inl (FetchRejected (Some ''Failed to fetch''))"
    "fst (getPatientsTry offline clinic ''A'' ()) = Inl (FetchRejected (Some ''Failed to fetch''))"
    by (simp_all add: offline_def getAppointmentsTry_def getPatientsTry_def makeRequest_def)
  have h: "length (fetchedRows (fst (sheets (tableRequest clinic (appointmentsSheet clinic)) headersOnly))) \<le> 1"
    "length (fetchedRows (fst (sheets (tableRequest clinic (patientsSheet clinic)) headersOnly))) \<le> 1"
    by (simp_all add: sample_defs list_defs tableRequest_def fetchedRows_def)
  from f t h list_empty_on_failure_or_no_data [of offline clinic "()" "''A''"]
    list_empty_on_failure_or_no_data [of sheets clinic headersOnly "''A''"]
  show ?thesis by simp
qed

subsection \<open>Locating a record\<close>

lemma findIndex_None: "findIndex p xs = None \<longleftrightarrow> (\<forall>x \<in> set xs. \<not> p x)"
  by (induction xs) auto

lemma findIndex_Some_mem: "findIndex p xs = Some i \<Longrightarrow> \<exists>x \<in> set xs. p x"
  using findIndex_None [of p xs] by auto

lemma findIndex_Some:
  "findIndex p xs = Some i \<Longrightarrow> i < length xs \<and> p (xs ! i) \<and> (\<forall>j < i. \<not> p (xs ! j))"
proof (induction xs arbitrary: i)
  case Nil
  then show ?case by simp
next
  case (Cons x xs)
  show ?case
  proof (cases "p x")
    case True
    with Cons.prems show ?thesis by simp
  next
    case False
    with Cons.prems obtain k where k: "findIndex p xs = Some k" "i = Suc k"
      by auto
    from Cons.IH [OF k(1)] False k(2) show ?thesis
      by (auto simp: nth_Cons split: nat.splits)
  qed
qed

lemma written_not_NotFound: "\<not> isNotFound (fst (written (makeRequest R svc ep m v w)))"
  by (auto simp: written_def makeRequest_def isNotFound_def
      split: prod.splits fetchOutcome.splits sum.splits if_splits)

lemma updateAppointment_NotFound:
  "isNotFound (fst (updateAppointment R svc ident u now w)) \<longleftrightarrow>
     ident \<notin> idA ` set (fst (getAppointments R svc (orElse (u_userIdA u) '''') w))"
proof -
  obtain xs w1 where g: "getAppointments R svc (orElse (u_userIdA u) '''') w = (xs, w1)"
    by (cases "getAppointments R svc (orElse (u_userIdA u) '''') w")
  show ?thesis
  proof (cases "findIndex (\<lambda>apt. idA apt = ident) xs")
    case None
    moreover from None have "\<forall>x \<in> set xs. idA x \<noteq> ident"
      by (simp add: findIndex_None)
    ultimately show ?thesis
      using g by (auto simp: updateAppointment_def isNotFound_def)
  next
    case (Some i)
    moreover from Some have "\<exists>x \<in> set xs. idA x = ident"
      by (rule findIndex_Some_mem)
    ultimately show ?thesis
      using g by (auto simp: updateAppointment_def Let_def written_not_NotFound)
  qed
qed

lemma updatePatient_NotFound:
  "isNotFound (fst (updatePatient R svc ident u now w)) \<longleftrightarrow>
     ident \<notin> idP ` set (fst (getPatients R svc (orElse (u_userIdP u) '''') w))"
proof -
  obtain xs w1 where g: "getPatients R svc (orElse (u_userIdP u) '''') w = (xs, w1)"
    by (cases "getPatients R svc (orElse (u_userIdP u) '''') w")
  show ?thesis
  proof (cases "findIndex (\<lambda>pat. idP pat = ident) xs")
    case None
    moreover from None have "\<forall>x \<in> set xs. idP x \<noteq> ident"
      by (simp add: findIndex_None)
    ultimately show ?thesis
      using g by (auto simp: updatePatient_def isNotFound_def)
  next
    case (Some i)
    moreover from Some have "\<exists>x \<in> set xs. idP x = ident"
      by (rule findIndex_Some_mem)
    ultimately show ?thesis
      using g by (auto simp: updatePatient_def Let_def written_not_NotFound)
  qed
qed

lemma updateAppointment_NotFound_world:
  "isNotFound (fst (updateAppointment R svc ident u now w)) \<Longrightarrow>
     updateAppointment R svc ident u now w =
       (Inl (NotFound ''Appointment not found''),
        snd (getAppointments R svc (orElse (u_userIdA u) '''') w))"
  by (auto simp: updateAppointment_def Let_def written_not_NotFound
      split: prod.splits option.splits)

lemma updatePatient_NotFound_world:
  "isNotFound (fst (updatePatient R svc ident u now w)) \<Longrightarrow>
     updatePatient R svc ident u now w =
       (Inl (NotFound ''Patient not found''),
        snd (getPatients R svc (orElse (u_userIdP u) '''') w))"
  by (auto simp: updatePatient_def Let_def written_not_NotFound
      split: prod.splits option.splits)

text \<open>A read of a whole tab leaves the spreadsheet as it is and adds itself to the log.\<close>

lemma sheets_read:
  "snd (sheets (tableRequest svc t) s) = s\<lparr>requests := requests s @ [tableRequest svc t]\<rparr>"
  by (auto simp: sheets_def tableRequest_def Let_def split: option.splits prod.splits)

lemma getAppointments_world:
  "snd (getAppointments R svc userId w) = snd (R (tableRequest svc (appointmentsSheet svc)) w)"
  by (auto simp: getAppointments_def getAppointmentsTry_def makeRequest_def tableRequest_def
      Let_def split: prod.splits sum.splits option.splits fetchOutcome.splits)

lemma getPatients_world:
  "snd (getPatients R svc userId w) = snd (R (tableRequest svc (patientsSheet svc)) w)"
  by (auto simp: getPatients_def getPatientsTry_def makeRequest_def tableRequest_def
      Let_def split: prod.splits sum.splits option.splits fetchOutcome.splits)

text \<open>
  Claim C2. The owner of an update is the \<^verbatim>\<open>userId\<close> of its partial fields (the empty
  string when that is missing). For every remote, updateAppointment and updatePatient
  throw the not-found error exactly when no record that the list for this owner returns
  has the identifier; and then the only request they have issued is the read of the list,
  so that on the reference spreadsheet the tabs are as before.
\<close>

theorem update_not_found_iff_absent:
  "(isNotFound (fst (updateAppointment R svc ident u now w)) \<longleftrightarrow>
      ident \<notin> idA ` set (fst (getAppointments R svc (orElse (u_userIdA u) '''') w)))
   \<and> (isNotFound (fst (updatePatient R svc ident v now w)) \<longleftrightarrow>
      ident \<notin> idP ` set (fst (getPatients R svc (orElse (u_userIdP v) '''') w)))
   \<and> (isNotFound (fst (updateAppointment R svc ident u now w)) \<longrightarrow>
      updateAppointment R svc ident u now w =
        (Inl (NotFound ''Appointment not found''),
         snd (R (tableRequest svc (appointmentsSheet svc)) w)))
   \<and> (isNotFound (fst (updatePatient R svc ident v now w)) \<longrightarrow>
      updatePatient R svc ident v now w =
        (Inl (NotFound ''Patient not found''),
         snd (R (tableRequest svc (patientsSheet svc)) w)))
   \<and> (isNotFound (fst (updateAppointment sheets svc ident u now s)) \<longrightarrow>
      snd (updateAppointment sheets svc ident u now s) =
        s\<lparr>requests := requests s @ [tableRequest svc (appointmentsSheet svc)]\<rparr>)
   \<and> (isNotFound (fst (updatePatient sheets svc ident v now s)) \<longrightarrow>
      snd (updatePatient sheets svc ident v now s) =
        s\<lparr>requests := requests s @ [tableRequest svc (patientsSheet svc)]\<rparr>)"
proof (intro conjI)
  show "isNotFound (fst (updateAppointment R svc ident u now w)) \<longleftrightarrow>
      ident \<notin> idA ` set (fst (getAppointments R svc (orElse (u_userIdA u) '''') w))"
    by (rule updateAppointment_NotFound)
  show "isNotFound (fst (updatePatient R svc ident v now w)) \<longleftrightarrow>
      ident \<notin> idP ` set (fst (getPatients R svc (orElse (u_userIdP v) '''') w))"
    by (rule updatePatient_NotFound)
  show "isNotFound (fst (updateAppointment R svc ident u now w)) \<longrightarrow>
      updateAppointment R svc ident u now w =
        (Inl (NotFound ''Appointment not found''),
         snd (R (tableRequest svc (appointmentsSheet svc)) w))"
    using updateAppointment_NotFound_world [of R svc ident u now w]
    by (simp add: getAppointments_world)
  show "isNotFound (fst (updatePatient R svc ident v now w)) \<longrightarrow>
      updatePatient R svc ident v now w =
        (Inl (NotFound ''Patient not found''),
         snd (R (tableRequest svc (patientsSheet svc)) w))"
    using updatePatient_NotFound_world [of R svc ident v now w]
    by (simp add: getPatients_world)
  show "isNotFound (fst (updateAppointment sheets svc ident u now s)) \<longrightarrow>
      snd (updateAppointment sheets svc ident u now s) =
        s\<lparr>requests := requests s @ [tableRequest svc (appointmentsSheet svc)]\<rparr>"
    using updateAppointment_NotFound_world [of sheets svc ident u now s]
    by (auto simp: getAppointments_world sheets_read)
  show "isNotFound (fst (updatePatient sheets svc ident v now s)) \<longrightarrow>
      snd (updatePatient sheets svc ident v now s) =
        s\<lparr>requests := requests s @ [tableRequest svc (patientsSheet svc)]\<rparr>"
    using updatePatient_NotFound_world [of sheets svc ident v now s]
    by (auto simp: getPatients_world sheets_read)
qed

lemmas write_defs =
  updateAppointment_def updatePatient_def deleteAppointment_def deletePatient_def
  mergeAppointment_def mergePatient_def appointmentRow_def patientRow_def written_def
  columnsTo_def writeRow_def clearRow_def setTab_def

theorem update_not_found_iff_absent_witness:
  "''zz'' \<notin> idA ` set (fst (getAppointments sheets clinic ''A'' sampleSheet))
   \<and> ''zz'' \<notin> idP ` set (fst (getPatients sheets clinic ''A'' sampleSheet))
   \<and> isNotFound (fst (updateAppointment sheets clinic ''zz'' confirmForA ''t2'' sampleSheet))
   \<and> isNotFound (fst (updatePatient sheets clinic ''zz'' renameForA ''t2'' sampleSheet))
   \<and> tabs (snd (updateAppointment sheets clinic ''zz'' confirmForA ''t2'' sampleSheet))
       = tabs sampleSheet
   \<and> tabs (snd (updatePatient sheets clinic ''zz'' renameForA ''t2'' sampleSheet))
       = tabs sampleSheet"
proof -
  have o: "orElse (u_userIdA confirmForA) '''' = ''A''" "orElse (u_userIdP renameForA) '''' = ''A''"
    by (simp_all add: sample_defs orElse_def)
  have a: "''zz'' \<notin> idA ` set (fst (getAppointments sheets clinic ''A'' sampleSheet))"
    by (simp add: sample_defs list_defs)
  have p: "''zz'' \<notin> idP ` set (fst (getPatients sheets clinic ''A'' sampleSheet))"
    by (simp add: sample_defs list_defs)
  note t = update_not_found_iff_absent [where R = sheets and svc = clinic and ident = "''zz''"
      and u = confirmForA and v = renameForA and now = "''t2''" and w = sampleSheet
      and s = sampleSheet]
  from t a p o have n: "isNotFound (fst (updateAppointment sheets clinic ''zz'' confirmForA ''t2'' sampleSheet))"
    "isNotFound (fst (updatePatient sheets clinic ''zz'' renameForA ''t2'' sampleSheet))"
    by simp_all
  from t n have sa: "snd (updateAppointment sheets clinic ''zz'' confirmForA ''t2'' sampleSheet) =
      sampleSheet\<lparr>requests := requests sampleSheet
        @ [tableRequest clinic (appointmentsSheet clinic)]\<rparr>"
    by blast
  from t n have sp: "snd (updatePatient sheets clinic ''zz'' renameForA ''t2'' sampleSheet) =
      sampleSheet\<lparr>requests := requests sampleSheet
        @ [tableRequest clinic (patientsSheet clinic)]\<rparr>"
    by blast
  have "tabs (snd (updateAppointment sheets clinic ''zz'' confirmForA ''t2'' sampleSheet))
       = tabs sampleSheet"
    "tabs (snd (updatePatient sheets clinic ''zz'' renameForA ''t2'' sampleSheet))
       = tabs sampleSheet"
    by (simp_all add: sa sp)
  with a p n show ?thesis by simp
qed

subsection \<open>What an update writes\<close>

lemma appointmentRow_merge:
  "appointmentRow (mergeAppointment a u now) =
     (overlay (appointmentKeys u) (appointmentRow a))[12 := now]"
  by (simp add: appointmentRow_def mergeAppointment_def overlay_def appointmentKeys_def
      orElse_def split: option.splits)

lemma patientRow_merge:
  "patientRow (mergePatient p u now) = (overlay (patientKeys u) (patientRow p))[9 := now]"
  by (simp add: patientRow_def mergePatient_def overlay_def patientKeys_def
      orElse_def split: option.splits)

text \<open>
  Claim C10. When the record is found at position \<open>i\<close> of the list, the row that
  updateAppointment (updatePatient) sends is the row of the existing record with every
  key that is present in the partial fields put in place of the cell of its column, the
  identifier, createdAt and the owner included, and then the updatedAt cell (column 13 of
  an appointment, column 10 of a patient) set to the clock, whatever the partial fields
  say about updatedAt.
\<close>

theorem update_writes_supplied_keys:
  "(getAppointments R svc (orElse (u_userIdA u) '''') w = (found, wa)
      \<and> findIndex (\<lambda>apt. idA apt = ident) found = Some i
    \<longrightarrow> updateAppointment R svc ident u now w =
          written (makeRequest R svc (RowRange (appointmentsSheet svc) CHR ''N'' (i + 2)) PUT
            (Some [(overlay (appointmentKeys u) (appointmentRow (found ! i)))[12 := now]]) wa))
   \<and> (getPatients R svc (orElse (u_userIdP v) '''') w = (foundP, wp)
      \<and> findIndex (\<lambda>pat. idP pat = ident) foundP = Some j
    \<longrightarrow> updatePatient R svc ident v now w =
          written (makeRequest R svc (RowRange (patientsSheet svc) CHR ''K'' (j + 2)) PUT
            (Some [(overlay (patientKeys v) (patientRow (foundP ! j)))[9 := now]]) wp))"
  by (simp add: updateAppointment_def updatePatient_def Let_def appointmentRow_merge
      patientRow_merge)

theorem update_writes_supplied_keys_witness:
  "findIndex (\<lambda>apt. idA apt = ''a1'') (fst (getAppointments sheets clinic ''A'' sampleSheet))
     = Some 0
   \<and> findIndex (\<lambda>pat. idP pat = ''p2'') (fst (getPatients sheets clinic ''A'' sampleSheet))
     = Some 0
   \<and> updateAppointment sheets clinic ''a1''
       (confirmForA\<lparr>u_idA := Some ''x9'', u_createdAtA := Some ''c9'',
                     u_updatedAtA := Some ''u9''\<rparr>) ''t2'' sampleSheet =
     written (makeRequest sheets clinic (RowRange ''Appointments'' CHR ''N'' 2) PUT
       (Some [[''x9'', ''Ann'', ''556'', '''', ''2024-01-02'', ''11:00'', ''Checkup'',
               ''confirmed'', '''', '''', '''', ''c9'', ''t2'', ''A'']])
       (snd (getAppointments sheets clinic ''A'' sampleSheet)))
   \<and> updatePatient sheets clinic ''p2''
       (renameForA\<lparr>u_idP := Some ''x9'', u_createdAtP := Some ''c9'',
                    u_updatedAtP := Some ''u9''\<rparr>) ''t2'' sampleSheet =
     written (makeRequest sheets clinic (RowRange ''Patients'' CHR ''K'' 2) PUT
       (Some [[''x9'', ''Anna'', ''556'', '''', '''', '''', '''', '''', ''c9'', ''t2'', ''A'']])
       (snd (getPatients sheets clinic ''A'' sampleSheet)))"
proof -
  let ?u = "confirmForA\<lparr>u_idA := Some ''x9'', u_createdAtA := Some ''c9'',
                     u_updatedAtA := Some ''u9''\<rparr>"
  let ?v = "renameForA\<lparr>u_idP := Some ''x9'', u_createdAtP := Some ''c9'',
                    u_updatedAtP := Some ''u9''\<rparr>"
  have o: "orElse (u_userIdA ?u) '''' = ''A''" "orElse (u_userIdP ?v) '''' = ''A''"
    by (simp_all add: sample_defs orElse_def)
  have la: "fst (getAppointments sheets clinic ''A'' sampleSheet) = [appointmentOfRow annVisit]"
    by (simp add: sample_defs list_defs)
  have lp: "fst (getPatients sheets clinic ''A'' sampleSheet) = [patientOfRow annFile]"
    by (simp add: sample_defs list_defs)
  have fa: "findIndex (\<lambda>apt. idA apt = ''a1'')
      (fst (getAppointments sheets clinic ''A'' sampleSheet)) = Some 0"
    by (simp add: la) (simp add: sample_defs appointmentOfRow_def cell_def orElse_def)
  have fp: "findIndex (\<lambda>pat. idP pat = ''p2'')
      (fst (getPatients sheets clinic ''A'' sampleSheet)) = Some 0"
    by (simp add: lp) (simp add: sample_defs patientOfRow_def cell_def orElse_def)
  have ra: "(overlay (appointmentKeys ?u) (appointmentRow (appointmentOfRow annVisit)))[12 := ''t2'']
      = [''x9'', ''Ann'', ''556'', '''', ''2024-01-02'', ''11:00'', ''Checkup'',
               ''confirmed'', '''', '''', '''', ''c9'', ''t2'', ''A'']"
    by (simp add: sample_defs overlay_def appointmentKeys_def appointmentRow_def
        appointmentOfRow_def cell_def orElse_def)
  have rp: "(overlay (patientKeys ?v) (patientRow (patientOfRow annFile)))[9 := ''t2'']
      = [''x9'', ''Anna'', ''556'', '''', '''', '''', '''', '''', ''c9'', ''t2'', ''A'']"
    by (simp add: sample_defs overlay_def patientKeys_def patientRow_def
        patientOfRow_def cell_def orElse_def)
  have names: "appointmentsSheet clinic = ''Appointments''" "patientsSheet clinic = ''Patients''"
    by (simp_all add: sample_defs)
  have ga: "getAppointments sheets clinic ''A'' sampleSheet =
      (fst (getAppointments sheets clinic ''A'' sampleSheet),
       snd (getAppointments sheets clinic ''A'' sampleSheet))"
    by simp
  have gp: "getPatients sheets clinic ''A'' sampleSheet =
      (fst (getPatients sheets clinic ''A'' sampleSheet),
       snd (getPatients sheets clinic ''A'' sampleSheet))"
    by simp
  note ta = update_writes_supplied_keys [where R = sheets and svc = clinic and u = ?u
      and w = sampleSheet and ident = "''a1''" and now = "''t2''" and i = 0
      and found = "fst (getAppointments sheets clinic ''A'' sampleSheet)"
      and wa = "snd (getAppointments sheets clinic ''A'' sampleSheet)",
      THEN conjunct1, unfolded o, rule_format, OF conjI, OF ga fa]
  note tp = update_writes_supplied_keys [where R = sheets and svc = clinic
      and v = ?v and w = sampleSheet and ident = "''p2''" and now = "''t2''" and j = 0
      and foundP = "fst (getPatients sheets clinic ''A'' sampleSheet)"
      and wp = "snd (getPatients sheets clinic ''A'' sampleSheet)",
      THEN conjunct2, unfolded o, rule_format, OF conjI, OF gp fp]
  from ta tp fa fp show ?thesis
    by (simp add: la lp ra rp names numeral_2_eq_2)
qed

subsection \<open>Connection test\<close>















subsection \<open>The row that update and delete address\<close>

text \<open>
  Claim C1, evaluated. In the sample spreadsheet the appointment \<open>a1\<close> of owner \<open>A\<close> is
  the second data row, so it is in row 3. updateAppointment sends its overwrite to row 2
  and deleteAppointment its clear to row 2, the row of the appointment \<open>b1\<close> of owner
  \<open>B\<close>: the row number is the position in the list of the owner's records plus 2, not
  the position among all data rows plus 2. Row 3 is left as it was.
\<close>

theorem update_and_delete_address_list_position:
  "map_of (tabs sampleSheet) ''Appointments'' = Some [appointmentHeaders, bobVisit, annVisit]
   \<and> fst (updateAppointment sheets clinic ''a1'' confirmForA ''t2'' sampleSheet) = Inr ()
   \<and> endpoint (last (requests
        (snd (updateAppointment sheets clinic ''a1'' confirmForA ''t2'' sampleSheet))))
       = RowRange ''Appointments'' CHR ''N'' 2
   \<and> map_of (tabs (snd (updateAppointment sheets clinic ''a1'' confirmForA ''t2'' sampleSheet)))
        ''Appointments''
       = Some [appointmentHeaders,
               [''a1'', ''Ann'', ''556'', '''', ''2024-01-02'', ''11:00'', ''Checkup'',
                ''confirmed'', '''', '''', '''', ''t1'', ''t2'', ''A''],
               annVisit]
   \<and> fst (deleteAppointment sheets clinic ''a1'' ''A'' sampleSheet) = Inr ()
   \<and> endpoint (last (requests (snd (deleteAppointment sheets clinic ''a1'' ''A'' sampleSheet))))
       = ClearRow ''Appointments'' CHR ''N'' 2
   \<and> map_of (tabs (snd (deleteAppointment sheets clinic ''a1'' ''A'' sampleSheet)))
        ''Appointments''
       = Some [appointmentHeaders, replicate 14 [], annVisit]"
  by (simp add: sample_defs list_defs write_defs)

subsection \<open>Delete, then list\<close>

text \<open>
  Claim C8, evaluated. In the sample spreadsheet, after deleteAppointment of \<open>a1\<close> for
  owner \<open>A\<close> has succeeded, the list of owner \<open>A\<close> still holds \<open>a1\<close>, and a second
  deleteAppointment of \<open>a1\<close> succeeds again instead of throwing the not-found error; the
  same for deletePatient of \<open>p2\<close>. The clear went to row 2, the row of the other owner.
\<close>

theorem delete_keeps_record_listed:
  "''a1'' \<in> idA ` set (fst (getAppointments sheets clinic ''A'' sampleSheet))
   \<and> fst (deleteAppointment sheets clinic ''a1'' ''A'' sampleSheet) = Inr ()
   \<and> ''a1'' \<in> idA ` set (fst (getAppointments sheets clinic ''A''
        (snd (deleteAppointment sheets clinic ''a1'' ''A'' sampleSheet))))
   \<and> fst (deleteAppointment sheets clinic ''a1'' ''A''
        (snd (deleteAppointment sheets clinic ''a1'' ''A'' sampleSheet))) = Inr ()
   \<and> ''p2'' \<in> idP ` set (fst (getPatients sheets clinic ''A'' sampleSheet))
   \<and> fst (deletePatient sheets clinic ''p2'' ''A'' sampleSheet) = Inr ()
   \<and> ''p2'' \<in> idP ` set (fst (getPatients sheets clinic ''A''
        (snd (deletePatient sheets clinic ''p2'' ''A'' sampleSheet))))
   \<and> fst (deletePatient sheets clinic ''p2'' ''A''
        (snd (deletePatient sheets clinic ''p2'' ''A'' sampleSheet))) = Inr ()"
  by (simp add: sample_defs list_defs write_defs)

subsection \<open>Initialisation\<close>

text \<open>
  Claim C4, evaluated. On a spreadsheet whose two tabs exist and are empty, the fetch of
  each header range succeeds and returns no values; initializeSheets then returns without
  an overwrite, having sent only the two reads, and the tabs are still empty. The header
  row is written only in the \<^verbatim>\<open>catch\<close>, that is when the fetch throws.
\<close>

theorem initialize_leaves_empty_tab_without_header:
  "fst (sheets \<lparr>spreadsheet = Some ''S'', endpoint = RowRange ''Appointments'' CHR ''N'' 1,
                httpMethod = GET, payload = None\<rparr> blankSheet) = okBody None False
   \<and> fst (initializeSheets sheets clinic blankSheet) = Inr ()
   \<and> map httpMethod (requests (snd (initializeSheets sheets clinic blankSheet))) = [GET, GET]
   \<and> tabs (snd (initializeSheets sheets clinic blankSheet))
       = [(''Appointments'', []), (''Patients'', [])]"
  by (simp add: sample_defs list_defs write_defs initializeSheets_def
      ensureAppointmentsSheet_def ensurePatientsSheet_def rowAt_def)

subsection \<open>Update, then list\<close>


end
